theory Spec2Isabelle
  imports Complex_Main "HOL-Library.Word"
begin

section \<open>JavaScript values\<close>

text \<open>
  The client is JavaScript: the values that travel through the chat component (parsed
  channel events, messages of the conversation log, settings, the persisted preference
  blob) are dynamically typed. They are modelled by one datatype. An object is the list
  of its own properties; \<open>JDate v\<close> is the object built by \<open>new Date(v)\<close>.

  A string value is the sequence of its UTF-16 code units. \<open>lit s\<close> is the string
  value of a literal of the source written in ASCII. Property names are literals of the
  source and are kept as they are written.
\<close>

type_synonym js_string = "16 word list"

definition lit :: "string \<Rightarrow> js_string" where
  "lit s = map of_char s"

datatype jsval =
    JUndefined
  | JNull
  | JBool bool
  | JNum rat
  | JStr js_string
  | JArr "jsval list"
  | JObj "(string \<times> jsval) list"
  | JDate jsval

text \<open>Truthiness: \<open>undefined\<close>, \<open>null\<close>, \<open>false\<close>, \<open>0\<close> and \<open>""\<close> are falsy.\<close>

fun truthy :: "jsval \<Rightarrow> bool" where
  "truthy JUndefined = False"
| "truthy JNull = False"
| "truthy (JBool b) = b"
| "truthy (JNum n) = (n \<noteq> 0)"
| "truthy (JStr s) = (s \<noteq> [])"
| "truthy (JArr xs) = True"
| "truthy (JObj ps) = True"
| "truthy (JDate v) = True"

text \<open>\<open>a || b\<close>, \<open>a && b\<close> and \<open>a ?? b\<close>.\<close>

definition js_or :: "jsval \<Rightarrow> jsval \<Rightarrow> jsval" where
  "js_or a b = (if truthy a then a else b)"

definition js_and :: "jsval \<Rightarrow> jsval \<Rightarrow> jsval" where
  "js_and a b = (if truthy a then b else a)"

fun nullish :: "jsval \<Rightarrow> bool" where
  "nullish JUndefined = True"
| "nullish JNull = True"
| "nullish v = False"

definition js_coalesce :: "jsval \<Rightarrow> jsval \<Rightarrow> jsval" where
  "js_coalesce a b = (if nullish a then b else a)"

text \<open>
  \<open>js_get v k\<close> is the property read \<open>v.k\<close> on a value that is neither \<open>null\<close> nor
  \<open>undefined\<close> (on those the read throws a TypeError, which the callers below write
  out). A property an object does not have reads as \<open>undefined\<close>; so does every
  property name used in this component on a number, string, boolean or array.
  \<open>js_get_opt v k\<close> is the optional chain \<open>v?.k\<close>.
\<close>

fun js_get :: "jsval \<Rightarrow> string \<Rightarrow> jsval" where
  "js_get (JObj ps) k = (case map_of ps k of Some v \<Rightarrow> v | None \<Rightarrow> JUndefined)"
| "js_get v k = JUndefined"

definition js_get_opt :: "jsval \<Rightarrow> string \<Rightarrow> jsval" where
  "js_get_opt v k = (if nullish v then JUndefined else js_get v k)"

text \<open>
  Object spread with overrides, \<open>{...prev, k: v}\<close>: the property keeps its place when
  \<open>prev\<close> has it and is added at the end otherwise.
\<close>

fun set_prop :: "(string \<times> jsval) list \<Rightarrow> string \<Rightarrow> jsval \<Rightarrow> (string \<times> jsval) list" where
  "set_prop [] k v = [(k, v)]"
| "set_prop ((k', v') # ps) k v = (if k' = k then (k, v) # ps else (k', v') # set_prop ps k v)"

section \<open>Voice capture: silence detection\<close>

text \<open>
  \<open>detectSilence(stream, onSilence, silenceDelay = 3000, minDecibels = -45)\<close> of the chat
  component builds an audio graph (microphone source \<rightarrow> analyser \<rightarrow> script processor \<rightarrow>
  destination), reads the clock for \<open>startTime\<close> and again for \<open>lastSound\<close>, and
  registers an \<open>audioprocess\<close> listener. The record holds the variables the listener
  closes over and the state of the graph.
\<close>

record detector =
  startTime :: int
  minRecordingDuration :: int
  silenceDelay :: int
  minDecibels :: int
  lastSound :: int
  microphoneConnected :: bool
  analyserConnected :: bool
  scriptProcessorConnected :: bool
  audioContextClosed :: bool

definition detectSilence :: "int \<Rightarrow> int \<Rightarrow> int \<Rightarrow> int \<Rightarrow> detector" where
  "detectSilence now0 now1 delay minDb =
     \<lparr> startTime = now0,
       minRecordingDuration = 2000,
       silenceDelay = delay,
       minDecibels = minDb,
       lastSound = now1,
       microphoneConnected = True,
       analyserConnected = True,
       scriptProcessorConnected = True,
       audioContextClosed = False \<rparr>"

text \<open>
  The frequency data is a \<open>Uint8Array\<close>. \<open>arraySum\<close> is the \<open>reduce\<close> from 0;
  \<open>average\<close> is \<open>arraySum / array.length\<close>, which is \<open>NaN\<close> (here \<open>None\<close>) on an
  empty array. The sum of bytes is exact in a double, and the quotient is zero exactly
  when the sum is.
\<close>

definition arraySum :: "8 word list \<Rightarrow> nat" where
  "arraySum array = foldl (\<lambda>a v. a + unat v) 0 array"

definition average :: "8 word list \<Rightarrow> rat option" where
  "average array =
     (if length array = 0 then None
      else Some (of_nat (arraySum array) / of_nat (length array)))"

text \<open>
  The \<open>audioprocess\<close> listener, with the clock reading \<open>now\<close> of this callback and the
  frequency data the analyser returns. The listener reads the clock in each of its two
  tests; within one callback both readings are the same millisecond \<open>now\<close>.
  \<open>onSilence\<close> is the caller's callback, acting on the caller's state. The listener
  assigns none of the variables it closes over.
\<close>

definition audioprocess ::
  "('s \<Rightarrow> 's) \<Rightarrow> int \<Rightarrow> 8 word list \<Rightarrow> detector \<times> 's \<Rightarrow> detector \<times> 's" where
  "audioprocess onSilence now array ds =
     (case ds of (d, s) \<Rightarrow>
        if now - startTime d > minRecordingDuration d then
          if average array = Some 0 \<and> now - lastSound d > silenceDelay d then
            (d\<lparr> microphoneConnected := False,
                scriptProcessorConnected := False,
                audioContextClosed := True \<rparr>,
             onSilence s)
          else (d, s)
        else (d, s))"

text \<open>
  The silence-detection loop: the platform delivers \<open>audioprocess\<close> events, each with
  its time and data, for as long as the audio context is open. The caller's state is here
  the log of the times at which the stop callback was invoked. \<open>stop_times\<close> is that
  log for a detector built as \<open>startRecording\<close> builds it, \<open>t0\<close> and \<open>t0'\<close> being
  the two clock readings of \<open>detectSilence\<close> (its \<open>startTime\<close> and \<open>lastSound\<close>).
\<close>

fun run_detector :: "detector \<times> int list \<Rightarrow> (int \<times> 8 word list) list \<Rightarrow> detector \<times> int list" where
  "run_detector ds [] = ds"
| "run_detector ds ((now, array) # rest) =
     (if audioContextClosed (fst ds) then ds
      else run_detector (audioprocess (\<lambda>calls. calls @ [now]) now array ds) rest)"

definition stop_times :: "int \<Rightarrow> int \<Rightarrow> (int \<times> 8 word list) list \<Rightarrow> int list" where
  "stop_times t0 t0' samples = snd (run_detector (detectSilence t0 t0' 3000 (-45), []) samples)"

section \<open>The chat component\<close>

subsection \<open>Platform objects\<close>

text \<open>
  A WebSocket: its ready state and the frames handed to \<open>send\<close> while open, in order
  (each frame is the object given to \<open>JSON.stringify\<close>). \<open>send\<close> throws while the
  socket is still connecting and silently discards the frame once it is closing or closed.
\<close>

datatype ready_state = CONNECTING | OPEN | CLOSING | CLOSED

record websocket =
  readyState :: ready_state
  sent :: "jsval list"

datatype js_error = SyntaxError | TypeError | InvalidStateError

definition new_WebSocket :: websocket where
  "new_WebSocket = \<lparr> readyState = CONNECTING, sent = [] \<rparr>"

definition ws_send :: "websocket \<Rightarrow> jsval \<Rightarrow> js_error + websocket" where
  "ws_send ws frame =
     (case readyState ws of
        CONNECTING \<Rightarrow> Inl InvalidStateError
      | OPEN \<Rightarrow> Inr (ws\<lparr> sent := sent ws @ [frame] \<rparr>)
      | CLOSING \<Rightarrow> Inr ws
      | CLOSED \<Rightarrow> Inr ws)"

definition ws_close :: "websocket \<Rightarrow> websocket" where
  "ws_close ws =
     (case readyState ws of
        CLOSED \<Rightarrow> ws
      | _ \<Rightarrow> ws\<lparr> readyState := CLOSING \<rparr>)"

text \<open>The platform opens the socket before it calls the \<open>onopen\<close> handler.\<close>

definition ws_opened :: "websocket \<Rightarrow> websocket" where
  "ws_opened ws = ws\<lparr> readyState := OPEN \<rparr>"

text \<open>
  An audio element made by \<open>new Audio(...)\<close>: the payload its data URL is built from,
  its playback rate, and whether it is playing. A new element is paused.
\<close>

record audio_element =
  src :: jsval
  playbackRate :: jsval
  playing :: bool

text \<open>The state of a \<open>MediaRecorder\<close>.\<close>

datatype recorder_state = Rec_inactive | Rec_recording | Rec_paused

text \<open>
  The data of an inbound channel frame, by what \<open>JSON.parse\<close> does with it: it throws a
  SyntaxError, or returns a value.
\<close>

datatype payload = Malformed | Json jsval

definition JSON_parse :: "payload \<Rightarrow> js_error + jsval" where
  "JSON_parse p = (case p of Malformed \<Rightarrow> Inl SyntaxError | Json v \<Rightarrow> Inr v)"

text \<open>
  \<open>String.prototype.trim\<close> removes white space and line terminators from both ends:
  tab, line feed, vertical tab, form feed, carriage return, space, no-break space, the
  other space separators (U+1680, U+2000 to U+200A, U+202F, U+205F, U+3000), the line and
  paragraph separators (U+2028, U+2029) and the byte order mark (U+FEFF). Each is one code
  unit.
\<close>

definition is_space :: "16 word \<Rightarrow> bool" where
  "is_space c =
     (c = 0x0009 \<or> c = 0x000A \<or> c = 0x000B \<or> c = 0x000C \<or> c = 0x000D \<or> c = 0x0020
      \<or> c = 0x00A0 \<or> c = 0x1680 \<or> (0x2000 \<le> c \<and> c \<le> 0x200A)
      \<or> c = 0x2028 \<or> c = 0x2029 \<or> c = 0x202F \<or> c = 0x205F \<or> c = 0x3000
      \<or> c = 0xFEFF)"

definition trim :: "js_string \<Rightarrow> js_string" where
  "trim s = rev (dropWhile is_space (rev (dropWhile is_space s)))"

subsection \<open>Component state\<close>

text \<open>
  The state hooks and refs of \<open>ChatInterface\<close>, together with the platform objects the
  component creates: the audio elements (in order of creation; \<open>audioPlayerRef\<close> holds
  the index of one of them, or \<open>null\<close>) and the silence detectors (one for each
  recording started).
\<close>

record chat =
  inputMessage :: js_string
  isRecording :: bool
  wsInstance :: "websocket option"
  wsError :: jsval
  mediaRecorderRef :: "recorder_state option"
  audioPlayerRef :: "nat option"
  selectedLanguage :: jsval
  autoDetectLanguage :: jsval
  showOriginalText :: jsval
  voicePreferences :: jsval
  messages :: "jsval list"
  settings :: jsval
  audios :: "audio_element list"
  detectors :: "detector list"

text \<open>The entry the \<open>messages\<close> state starts with, created at time \<open>now\<close>.\<close>

definition initial_message :: "int \<Rightarrow> jsval" where
  "initial_message now =
     JObj [(''type'', JStr (lit '''')),
           (''content'', JStr (lit '''')),
           (''originalContent'', JStr (lit '''')),
           (''translatedContent'', JStr (lit '''')),
           (''language'', JObj [(''source'', JStr (lit '''')),
                                (''target'', JStr (lit '''')),
                                (''detected'', JBool False),
                                (''confidence'', JNum 0)]),
           (''timestamp'', JDate (JNum (of_int now))),
           (''audio'', JNull),
           (''analysis'', JObj [(''symptoms'', JArr []),
                                (''confidence'', JNum 0),
                                (''urgency'', JStr (lit '''')),
                                (''requiresEmergency'', JBool False),
                                (''recommendations'', JArr [])])]"

definition default_voice :: jsval where
  "default_voice = JObj [(''enabled'', JBool True), (''gender'', JStr (lit ''female'')), (''speed'', JNum 1)]"

definition default_settings :: jsval where
  "default_settings =
     JObj [(''interfaceLanguage'', JStr (lit ''en'')),
           (''preferredLanguage'', JStr (lit ''en'')),
           (''autoDetectLanguage'', JBool True),
           (''voice'', default_voice)]"

definition initial_chat :: "int \<Rightarrow> chat" where
  "initial_chat now =
     \<lparr> inputMessage = [],
       isRecording = False,
       wsInstance = None,
       wsError = JNull,
       mediaRecorderRef = None,
       audioPlayerRef = None,
       selectedLanguage = JStr (lit ''en''),
       autoDetectLanguage = JBool True,
       showOriginalText = JBool False,
       voicePreferences = default_voice,
       messages = [initial_message now],
       settings = default_settings,
       audios = [],
       detectors = [] \<rparr>"

subsection \<open>The channel\<close>

text \<open>
  The connection effect creates the socket and stores it in \<open>wsInstance\<close>; its cleanup
  pauses the audio element \<open>audioPlayerRef\<close> holds, if any, and closes the socket.
\<close>

definition connect_effect :: "chat \<Rightarrow> chat" where
  "connect_effect st = st\<lparr> wsInstance := Some new_WebSocket \<rparr>"

definition connect_cleanup :: "chat \<Rightarrow> chat" where
  "connect_cleanup st =
     (let st1 = (case audioPlayerRef st of
                   None \<Rightarrow> st
                 | Some i \<Rightarrow> st\<lparr> audios := (audios st)[i := (audios st ! i)\<lparr> playing := False \<rparr>] \<rparr>)
      in st1\<lparr> wsInstance := map_option ws_close (wsInstance st1) \<rparr>)"

text \<open>\<open>ws.onopen\<close> of the component: it logs and clears the error.\<close>

definition ws_onopen :: "chat \<Rightarrow> chat" where
  "ws_onopen st = st\<lparr> wsError := JNull \<rparr>"

text \<open>The socket opens: the platform sets the ready state, then runs the handler.\<close>

definition channel_open :: "chat \<Rightarrow> chat" where
  "channel_open st = ws_onopen (st\<lparr> wsInstance := map_option ws_opened (wsInstance st) \<rparr>)"

text \<open>The message \<open>ws.onmessage\<close> builds from the parsed event \<open>data\<close> at time \<open>now\<close>.\<close>

definition inbound_message :: "int \<Rightarrow> jsval \<Rightarrow> jsval" where
  "inbound_message now data =
     JObj [(''type'', js_or (js_get data ''type'') (JStr (lit ''bot''))),
           (''content'', js_get data ''content''),
           (''originalContent'', js_get data ''original_message''),
           (''translatedContent'', js_get data ''translated_message''),
           (''language'', JObj [(''source'', js_get_opt (js_get data ''language'') ''source''),
                                (''target'', js_get_opt (js_get data ''language'') ''target''),
                                (''detected'', js_get_opt (js_get data ''language'') ''detected''),
                                (''confidence'', js_get_opt (js_get data ''language'') ''confidence'')]),
           (''timestamp'', JDate (js_or (js_get data ''timestamp'') (JNum (of_int now)))),
           (''audio'', js_get data ''audio''),
           (''analysis'', JObj [(''symptoms'', js_or (js_get data ''symptoms'') (JArr [])),
                                (''confidence'', js_get_opt (js_get data ''confidence_scores'') ''overall''),
                                (''urgency'', js_get data ''urgency''),
                                (''requiresEmergency'', js_get data ''requires_emergency''),
                                (''recommendations'', js_get data ''recommendations'')])]"

text \<open>
  The playback part of \<open>ws.onmessage\<close>: a new audio element is created, its rate set,
  the handle pointed at it, and \<open>play()\<close> awaited; \<open>playOk\<close> says whether the platform
  lets it play (a rejection is caught and logged). The element the handle held before is
  not touched. An element plays until it is paused; the end of its stream is not part of
  the model.
\<close>

definition play_inbound_audio :: "bool \<Rightarrow> jsval \<Rightarrow> chat \<Rightarrow> chat" where
  "play_inbound_audio playOk data st =
     (let audio = \<lparr> src = js_get data ''audio'',
                     playbackRate = js_get (voicePreferences st) ''speed'',
                     playing = False \<rparr>;
          i = length (audios st);
          st1 = st\<lparr> audios := audios st @ [audio], audioPlayerRef := Some i \<rparr>
      in if playOk then st1\<lparr> audios := (audios st1)[i := audio\<lparr> playing := True \<rparr>] \<rparr>
         else st1)"

text \<open>
  \<open>ws.onmessage\<close>. Whatever the \<open>try\<close> block throws (the SyntaxError of
  \<open>JSON.parse\<close>, the TypeError of reading \<open>data.type\<close> on \<open>null\<close>) is caught, logged
  and reported through \<open>wsError\<close>.
\<close>

definition ws_onmessage :: "int \<Rightarrow> bool \<Rightarrow> payload \<Rightarrow> chat \<Rightarrow> chat" where
  "ws_onmessage now playOk p st =
     (case JSON_parse p of
        Inl e \<Rightarrow> st\<lparr> wsError := JStr (lit ''Error processing message'') \<rparr>
      | Inr data \<Rightarrow>
          if nullish data then st\<lparr> wsError := JStr (lit ''Error processing message'') \<rparr>
          else if js_get data ''type'' = JStr (lit ''error'') then
            st\<lparr> wsError := js_get data ''content'' \<rparr>
          else
            (let st1 = st\<lparr> messages := messages st @ [inbound_message now data] \<rparr>
             in if truthy (js_and (js_get data ''audio'') (js_get (voicePreferences st1) ''enabled''))
                then play_inbound_audio playOk data st1
                else st1))"

text \<open>Inbound frames in arrival order, each with its time and the outcome of \<open>play()\<close>.\<close>

fun deliver :: "(int \<times> bool \<times> payload) list \<Rightarrow> chat \<Rightarrow> chat" where
  "deliver [] st = st"
| "deliver ((now, playOk, p) # rest) st = deliver rest (ws_onmessage now playOk p st)"

text \<open>
  \<open>handleWsMessage\<close>, the second builder of a message from an event. It has no
  \<open>try\<close> block: on \<open>null\<close> or \<open>undefined\<close> the read of \<open>data.type\<close> throws and
  nothing is added.
\<close>

definition handleWsMessage :: "int \<Rightarrow> jsval \<Rightarrow> chat \<Rightarrow> js_error + chat" where
  "handleWsMessage now data st =
     (if nullish data then Inl TypeError
      else
      let lang = js_get data ''language'';
          preferred = js_get (settings st) ''preferredLanguage'';
          messageData =
            JObj [(''type'', js_or (js_get data ''type'') (JStr (lit ''bot''))),
                  (''content'', js_get data ''content''),
                  (''originalContent'', js_get data ''original_content''),
                  (''translatedContent'', js_get data ''translated_content''),
                  (''language'', JObj [(''source'', js_or (js_get_opt lang ''source'') preferred),
                                       (''target'', js_or (js_get_opt lang ''target'') preferred),
                                       (''detected'', js_or (js_get_opt lang ''detected'') (JBool False)),
                                       (''confidence'', js_or (js_get_opt lang ''confidence'') (JNum 1))]),
                  (''timestamp'', JDate (js_or (js_get data ''timestamp'') (JNum (of_int now)))),
                  (''audio'', js_get data ''audio''),
                  (''analysis'', JObj [(''symptoms'', js_or (js_get data ''symptoms'') (JArr [])),
                                       (''confidence'',
                                          js_or (js_get_opt (js_get data ''confidence_scores'') ''overall'') (JNum 1)),
                                       (''urgency'', js_get data ''urgency''),
                                       (''requiresEmergency'', js_get data ''requires_emergency''),
                                       (''recommendations'', js_or (js_get data ''recommendations'') (JArr []))])]
      in Inr (st\<lparr> messages := messages st @ [messageData] \<rparr>))"

text \<open>
  \<open>handleSendMessage(text)\<close>: the outbound event, the entry added to the log, and the
  handler. The entry is added before the send; a send that throws is reported through
  \<open>wsError\<close> and leaves the entry in place.
\<close>

definition outbound_message :: "js_string \<Rightarrow> chat \<Rightarrow> jsval" where
  "outbound_message text st =
     JObj [(''type'', JStr (lit ''message'')),
           (''content'', JStr (trim text)),
           (''language'', JObj [(''source'', selectedLanguage st),
                                (''autoDetect'', autoDetectLanguage st)]),
           (''preferences'', JObj [(''voice'', voicePreferences st),
                                   (''showOriginalText'', showOriginalText st)])]"

definition user_message :: "int \<Rightarrow> js_string \<Rightarrow> chat \<Rightarrow> jsval" where
  "user_message now text st =
     JObj [(''type'', JStr (lit ''user'')),
           (''content'', JStr (trim text)),
           (''language'', JObj [(''source'', selectedLanguage st),
                                (''target'', selectedLanguage st),
                                (''detected'', JBool False),
                                (''confidence'', JNum 1)]),
           (''timestamp'', JDate (JNum (of_int now))),
           (''analysis'', JNull)]"

definition error_message :: "js_error \<Rightarrow> js_string" where
  "error_message e =
     (case e of SyntaxError \<Rightarrow> lit ''SyntaxError''
      | TypeError \<Rightarrow> lit ''TypeError''
      | InvalidStateError \<Rightarrow> lit ''InvalidStateError'')"

definition handleSendMessage :: "int \<Rightarrow> js_string \<Rightarrow> chat \<Rightarrow> chat" where
  "handleSendMessage now text st =
     (if trim text = [] \<or> wsInstance st = None then st
      else
        (let message = outbound_message text st;
             st1 = st\<lparr> messages := messages st @ [user_message now text st] \<rparr>
         in case wsInstance st of
              None \<Rightarrow> st
            | Some ws \<Rightarrow>
                (case ws_send ws message of
                   Inl e \<Rightarrow> st1\<lparr> wsError := JStr (lit ''Failed to send message: '' @ error_message e) \<rparr>
                 | Inr ws' \<Rightarrow> st1\<lparr> wsInstance := Some ws', inputMessage := [] \<rparr>)))"

subsection \<open>Recording\<close>

text \<open>
  \<open>startRecording\<close>: the outcome of acquiring the microphone and building the recorder
  is either success or an error with its message. On success the recorder is started and
  a silence detector is built on the stream (with the default delay and decibel floor),
  reading the clock twice. On failure the \<open>catch\<close> block reports the error.
\<close>

datatype mic_outcome = Granted | Failed js_string

definition startRecording :: "mic_outcome \<Rightarrow> int \<Rightarrow> int \<Rightarrow> chat \<Rightarrow> chat" where
  "startRecording outcome now0 now1 st =
     (case outcome of
        Failed msg \<Rightarrow>
          st\<lparr> wsError := JStr (lit ''Failed to access microphone: '' @ msg), isRecording := False \<rparr>
      | Granted \<Rightarrow>
          st\<lparr> mediaRecorderRef := Some Rec_recording,
              isRecording := True,
              detectors := detectors st @ [detectSilence now0 now1 3000 (-45)] \<rparr>)"

text \<open>\<open>stopRecording\<close>, the handler of the microphone button while recording.\<close>

definition stopRecording :: "chat \<Rightarrow> chat" where
  "stopRecording st =
     (if mediaRecorderRef st \<noteq> None \<and> mediaRecorderRef st = Some Rec_recording then
        st\<lparr> mediaRecorderRef := Some Rec_inactive, isRecording := False \<rparr>
      else st)"

text \<open>The callback \<open>startRecording\<close> gives to \<open>detectSilence\<close>.\<close>

definition onSilence :: "chat \<Rightarrow> chat" where
  "onSilence st = (if mediaRecorderRef st = Some Rec_recording then stopRecording st else st)"

text \<open>
  An \<open>audioprocess\<close> event of the \<open>i\<close>-th detector of the component. The platform
  delivers none once the detector's audio context is closed.
\<close>

definition chat_audioprocess :: "nat \<Rightarrow> int \<Rightarrow> 8 word list \<Rightarrow> chat \<Rightarrow> chat" where
  "chat_audioprocess i now array st =
     (if i < length (detectors st) \<and> \<not> audioContextClosed (detectors st ! i) then
        (case audioprocess onSilence now array (detectors st ! i, st) of
           (d', st') \<Rightarrow> st'\<lparr> detectors := (detectors st')[i := d'] \<rparr>)
      else st)"

text \<open>A detector holds no audio-graph resource any more.\<close>

definition released :: "detector \<Rightarrow> bool" where
  "released d = (\<not> microphoneConnected d \<and> \<not> scriptProcessorConnected d \<and> audioContextClosed d)"

section \<open>Preferences\<close>

text \<open>
  The persisted preference blob lives in \<open>localStorage\<close> under one key, as JSON text.
  The store is modelled by the value that text parses to. \<open>JSON.stringify\<close> of an object
  leaves out the properties whose value is \<open>undefined\<close>; the values of the other
  properties are settings values (strings, booleans, the voice object) and are kept.
\<close>

type_synonym storage = "string \<Rightarrow> jsval option"

definition prefs_key :: string where
  "prefs_key = ''userLanguagePreferences''"

definition stringify_object :: "(string \<times> jsval) list \<Rightarrow> jsval" where
  "stringify_object ps = JObj (filter (\<lambda>(k, v). v \<noteq> JUndefined) ps)"

text \<open>\<open>{...prev, k: v}\<close> on a settings value.\<close>

definition spread_set :: "jsval \<Rightarrow> string \<Rightarrow> jsval \<Rightarrow> jsval" where
  "spread_set prev k v = (case prev of JObj ps \<Rightarrow> JObj (set_prop ps k v) | _ \<Rightarrow> JObj [(k, v)])"

text \<open>
  The load effects. The chat component parses the stored text, or \<open>'{}'\<close> when there is
  none; the consultation page parses what \<open>getItem\<close> returns, which is \<open>null\<close> when
  there is none. Both then merge the stored fields into the settings state.
\<close>

definition merge_saved :: "jsval \<Rightarrow> jsval \<Rightarrow> jsval" where
  "merge_saved savedPreferences prev =
     (if truthy savedPreferences then
        spread_set (spread_set (spread_set (spread_set prev
          ''interfaceLanguage'' (js_or (js_get savedPreferences ''interface'') (JStr (lit ''en''))))
          ''preferredLanguage'' (js_or (js_get savedPreferences ''preferred'') (JStr (lit ''en''))))
          ''autoDetectLanguage'' (js_coalesce (js_get savedPreferences ''autoDetect'') (JBool True)))
          ''voice'' (js_or (js_get savedPreferences ''voice'') (js_get prev ''voice''))
      else prev)"

definition chat_load :: "storage \<Rightarrow> jsval \<Rightarrow> jsval" where
  "chat_load store prev =
     merge_saved (case store prefs_key of None \<Rightarrow> JObj [] | Some v \<Rightarrow> v) prev"

definition page_load :: "storage \<Rightarrow> jsval \<Rightarrow> jsval" where
  "page_load store prev =
     merge_saved (case store prefs_key of None \<Rightarrow> JNull | Some v \<Rightarrow> v) prev"

text \<open>The settings state of the consultation page at mount.\<close>

definition page_default_settings :: jsval where
  "page_default_settings =
     JObj [(''showSettings'', JBool False),
           (''interfaceLanguage'', JStr (lit ''en'')),
           (''preferredLanguage'', JStr (lit ''en'')),
           (''autoDetectLanguage'', JBool True),
           (''voice'', default_voice)]"

text \<open>
  The writers. \<open>handleSettingChange(setting, value)\<close> of the consultation page stores
  the four fields under the names the loaders read. \<open>handleLanguageChange\<close> and
  \<open>handleAutoDetectChange\<close> of the chat component store the settings state as it is.
  Each returns the new settings state and the new store.
\<close>

definition handleSettingChange :: "string \<Rightarrow> jsval \<Rightarrow> jsval \<times> storage \<Rightarrow> jsval \<times> storage" where
  "handleSettingChange setting v ps =
     (case ps of (prev, store) \<Rightarrow>
        let newSettings = spread_set prev setting v
        in (newSettings,
            store(prefs_key \<mapsto> stringify_object
              [(''interface'', js_get newSettings ''interfaceLanguage''),
               (''preferred'', js_get newSettings ''preferredLanguage''),
               (''autoDetect'', js_get newSettings ''autoDetectLanguage''),
               (''voice'', js_get newSettings ''voice'')])))"

definition stringify_settings :: "jsval \<Rightarrow> jsval" where
  "stringify_settings v = (case v of JObj ps \<Rightarrow> stringify_object ps | _ \<Rightarrow> v)"

definition handleLanguageChange :: "jsval \<Rightarrow> jsval \<times> storage \<Rightarrow> jsval \<times> storage" where
  "handleLanguageChange language ps =
     (case ps of (prev, store) \<Rightarrow>
        let newSettings = spread_set prev ''preferredLanguage'' language
        in (newSettings, store(prefs_key \<mapsto> stringify_settings newSettings)))"

definition handleAutoDetectChange :: "jsval \<Rightarrow> jsval \<times> storage \<Rightarrow> jsval \<times> storage" where
  "handleAutoDetectChange v ps =
     (case ps of (prev, store) \<Rightarrow>
        let newSettings = spread_set prev ''autoDetectLanguage'' v
        in (newSettings, store(prefs_key \<mapsto> stringify_settings newSettings)))"

section \<open>The API module\<close>

text \<open>
  \<open>WebSocketService.connect(consultationId, options = {})\<close> creates a socket whose
  \<open>onopen\<close> handler sends the init event built from \<open>options\<close> and then calls
  \<open>options.onOpen\<close> when there is one. The data fields of \<open>options\<close> are a value;
  the callback is given apart, as what it does to the socket. The default \<open>{}\<close>
  replaces \<open>undefined\<close> only; reading a field of \<open>null\<close> throws.
\<close>

definition default_options :: "jsval \<Rightarrow> jsval" where
  "default_options options = (if options = JUndefined then JObj [] else options)"

definition init_event :: "jsval \<Rightarrow> jsval" where
  "init_event options =
     JObj [(''type'', JStr (lit ''init'')),
           (''preferences'',
              JObj [(''language'', js_or (js_get options ''language'') (JStr (lit ''en''))),
                    (''autoDetect'', js_or (js_get options ''autoDetect'') (JBool True)),
                    (''voicePreferences'',
                       js_or (js_get options ''voicePreferences'')
                             (JObj [(''enabled'', JBool True), (''gender'', JStr (lit ''female''))]))])]"

definition service_onopen ::
  "jsval \<Rightarrow> (websocket \<Rightarrow> websocket) option \<Rightarrow> websocket \<Rightarrow> js_error + websocket" where
  "service_onopen options onOpen ws =
     (let opts = default_options options
      in if nullish opts then Inl TypeError
         else case ws_send ws (init_event opts) of
                Inl e \<Rightarrow> Inl e
              | Inr ws' \<Rightarrow> (case onOpen of None \<Rightarrow> Inr ws' | Some f \<Rightarrow> Inr (f ws')))"



section \<open>The event loop of the chat component\<close>

text \<open>
  The component is single-threaded and event-driven: its state changes only when one of
  its effects or handlers runs. Each action below is one such run, with the readings of
  the clock and the outcomes of the platform calls it depends on.
\<close>

datatype action =
    Connect
  | Cleanup
  | Opened
  | Inbound int bool payload
  | WsMessage int jsval
  | Send int js_string
  | StartRecording mic_outcome int int
  | StopRecording
  | AudioProcess nat int "8 word list"

fun step :: "action \<Rightarrow> chat \<Rightarrow> chat" where
  "step Connect st = connect_effect st"
| "step Cleanup st = connect_cleanup st"
| "step Opened st = channel_open st"
| "step (Inbound now playOk p) st = ws_onmessage now playOk p st"
| "step (WsMessage now data) st =
     (case handleWsMessage now data st of Inl e \<Rightarrow> st | Inr st' \<Rightarrow> st')"
| "step (Send now text) st = handleSendMessage now text st"
| "step (StartRecording outcome now0 now1) st = startRecording outcome now0 now1 st"
| "step StopRecording st = stopRecording st"
| "step (AudioProcess i now array) st = chat_audioprocess i now array st"

fun run :: "action list \<Rightarrow> chat \<Rightarrow> chat" where
  "run [] st = st"
| "run (a # as) st = run as (step a st)"

text \<open>
  A parsed inbound event that is not an error event: reading its \<open>type\<close> does not
  throw, and the type is not \<open>"error"\<close>.
\<close>

definition non_error :: "jsval \<Rightarrow> bool" where
  "non_error data = (\<not> nullish data \<and> js_get data ''type'' \<noteq> JStr (lit ''error''))"

text \<open>A session that has just connected: the component mounted at \<open>t0\<close>, its socket open.\<close>

definition fresh_session :: "int \<Rightarrow> chat" where
  "fresh_session t0 = channel_open (connect_effect (initial_chat t0))"

section \<open>Literals\<close>

lemma lit_Nil [simp]: "lit [] = []"
  by (simp add: lit_def)

lemma lit_Cons [simp]: "lit (c # cs) = of_char c # lit cs"
  by (simp add: lit_def)

section \<open>Properties of silence detection\<close>

lemma audioprocess_lastSound:
  "lastSound (fst (audioprocess f now array ds)) = lastSound (fst ds)"
  by (cases ds) (simp add: audioprocess_def)

lemma audioprocess_startTime:
  "startTime (fst (audioprocess f now array ds)) = startTime (fst ds)"
  by (cases ds) (simp add: audioprocess_def)

lemma audioprocess_minRecordingDuration:
  "minRecordingDuration (fst (audioprocess f now array ds)) = minRecordingDuration (fst ds)"
  by (cases ds) (simp add: audioprocess_def)

lemma audioprocess_log:
  "t \<in> set (snd (audioprocess (\<lambda>calls. calls @ [now]) now array (d, calls))) \<Longrightarrow>
   t \<in> set calls \<or> t > startTime d + minRecordingDuration d"
  by (auto simp: audioprocess_def split: if_splits)

lemma run_detector_log:
  "t \<in> set (snd (run_detector (d, calls) samples)) \<Longrightarrow>
   t \<in> set calls \<or> t > startTime d + minRecordingDuration d"
proof (induction samples arbitrary: d calls)
  case Nil
  then show ?case by simp
next
  case (Cons s samples)
  obtain now array where s: "s = (now, array)" by (cases s)
  show ?case
  proof (cases "audioContextClosed d")
    case True
    with Cons.prems s show ?thesis by simp
  next
    case False
    obtain d' calls' where step: "audioprocess (\<lambda>calls. calls @ [now]) now array (d, calls) = (d', calls')"
      by (cases "audioprocess (\<lambda>calls. calls @ [now]) now array (d, calls)")
    from Cons.prems s False step
    have "t \<in> set (snd (run_detector (d', calls') samples))" by simp
    then have "t \<in> set calls' \<or> t > startTime d' + minRecordingDuration d'"
      by (rule Cons.IH)
    moreover have "startTime d' = startTime d"
      using audioprocess_startTime [of "\<lambda>calls. calls @ [now]" now array "(d, calls)"] step by simp
    moreover have "minRecordingDuration d' = minRecordingDuration d"
      using audioprocess_minRecordingDuration [of "\<lambda>calls. calls @ [now]" now array "(d, calls)"] step
      by simp
    moreover have "t \<in> set calls' \<Longrightarrow> t \<in> set calls \<or> t > startTime d + minRecordingDuration d"
      using audioprocess_log [of t now array d calls] step by simp
    ultimately show ?thesis by auto
  qed
qed

lemma run_detector_lastSound:
  "lastSound (fst (run_detector ds samples)) = lastSound (fst ds)"
proof (induction samples arbitrary: ds)
  case Nil
  show ?case by simp
next
  case (Cons s samples)
  obtain now array where s: "s = (now, array)" by (cases s)
  show ?case
    using Cons.IH [of "audioprocess (\<lambda>calls. calls @ [now]) now array ds"] s
    by (simp add: audioprocess_lastSound)
qed

text \<open>
  Claim C1. A recording whose sound ends at \<open>t1\<close>, more than 2000 ms after its start,
  is to be stopped at \<open>t1 + 3000\<close>, the delay being measured from a last-sound time that
  every sample with sound updates. The listener never assigns \<open>lastSound\<close>
  (\<open>run_detector_lastSound\<close>), so the delay runs from the start of the recording: with
  the start at 0, sound in the samples up to 9000 and silence from 10000 on, the stop
  callback is invoked at 10000, not at 13000, and \<open>lastSound\<close> is still 0.
\<close>

theorem silence_delay_measured_from_start:
  "run_detector (detectSilence 0 0 3000 (-45), [])
     [(1000, [0, 17, 3, 0]), (5000, [0, 9, 0, 0]), (9000, [2, 17, 3, 0]),
      (10000, [0, 0, 0, 0]), (11000, [0, 0, 0, 0]), (13001, [0, 0, 0, 0])]
   = (\<lparr> startTime = 0, minRecordingDuration = 2000, silenceDelay = 3000, minDecibels = -45,
        lastSound = 0, microphoneConnected = False, analyserConnected = True,
        scriptProcessorConnected = False, audioContextClosed = True \<rparr>,
      [10000])"
  by (simp add: detectSilence_def audioprocess_def average_def arraySum_def)

lemma detector_stop_after_minimum_duration:
  "t \<in> set (stop_times t0 t0' samples) \<Longrightarrow> t > t0 + 2000"
proof -
  assume "t \<in> set (stop_times t0 t0' samples)"
  then have "t \<in> set (snd (run_detector (detectSilence t0 t0' 3000 (-45), []) samples))"
    by (simp add: stop_times_def)
  from run_detector_log [OF this]
  show ?thesis by (simp add: detectSilence_def)
qed

text \<open>
  Claim C2. No recording is to be stopped by silence detection less than 2000 ms after
  its start. The listener of a detector keeps to that for its own start time
  (\<open>detector_stop_after_minimum_duration\<close>), but a manual stop leaves the detector of
  the stopped recording running, and its callback stops whatever recorder the component
  holds when it fires. A first recording is started at 0 and stopped by hand after a
  sample with sound at 1000; a second recording is started at 7000; the first detector's
  silent sample at 7500 passes both of its tests (7500 ms after its start and after its
  \<open>lastSound\<close>), so its callback stops the second recording 500 ms after it started.
\<close>

theorem stale_detector_stops_next_recording:
  "mediaRecorderRef (run [StartRecording Granted 0 0, AudioProcess 0 1000 [0, 17, 3, 0],
                          StopRecording, StartRecording Granted 7000 7000] (fresh_session 0))
     = Some Rec_recording
   \<and> run [StartRecording Granted 0 0, AudioProcess 0 1000 [0, 17, 3, 0], StopRecording,
           StartRecording Granted 7000 7000, AudioProcess 0 7500 [0, 0, 0, 0]] (fresh_session 0)
     = (fresh_session 0)
         \<lparr> mediaRecorderRef := Some Rec_inactive,
           detectors :=
             [\<lparr> startTime = 0, minRecordingDuration = 2000, silenceDelay = 3000,
                 minDecibels = -45, lastSound = 0, microphoneConnected = False,
                 analyserConnected = True, scriptProcessorConnected = False,
                 audioContextClosed = True \<rparr>,
              \<lparr> startTime = 7000, minRecordingDuration = 2000, silenceDelay = 3000,
                 minDecibels = -45, lastSound = 7000, microphoneConnected = True,
                 analyserConnected = True, scriptProcessorConnected = True,
                 audioContextClosed = False \<rparr>] \<rparr>"
  by (simp add: fresh_session_def channel_open_def connect_effect_def initial_chat_def
      ws_onopen_def startRecording_def stopRecording_def chat_audioprocess_def audioprocess_def
      detectSilence_def average_def arraySum_def onSilence_def)

section \<open>Properties of the conversation log\<close>

lemma js_get_nullish: "nullish data \<Longrightarrow> js_get data k = JUndefined"
  by (cases data) simp_all

lemma fresh_session_messages: "messages (fresh_session t0) = [initial_message t0]"
  by (simp add: fresh_session_def channel_open_def connect_effect_def initial_chat_def ws_onopen_def)

lemma fresh_session_socket:
  "wsInstance (fresh_session t0) = Some \<lparr> readyState = OPEN, sent = [] \<rparr>"
  by (simp add: fresh_session_def channel_open_def connect_effect_def initial_chat_def
      ws_onopen_def ws_opened_def new_WebSocket_def)

lemma ws_onmessage_non_error:
  "non_error data \<Longrightarrow>
   messages (ws_onmessage now playOk (Json data) st) = messages st @ [inbound_message now data]"
  by (simp add: non_error_def ws_onmessage_def JSON_parse_def play_inbound_audio_def Let_def)

lemma deliver_non_error:
  "\<forall>e \<in> set evs. non_error (snd (snd e)) \<Longrightarrow>
   messages (deliver (map (\<lambda>(now, playOk, data). (now, playOk, Json data)) evs) st)
     = messages st @ map (\<lambda>(now, playOk, data). inbound_message now data) evs"
proof (induction evs arbitrary: st)
  case Nil
  show ?case by simp
next
  case (Cons e evs)
  obtain now playOk data where e: "e = (now, playOk, data)" by (cases e)
  from Cons.prems e have ne: "non_error data" by simp
  from Cons.prems have rest: "\<forall>e \<in> set evs. non_error (snd (snd e))" by simp
  show ?case
    using Cons.IH [OF rest, of "ws_onmessage now playOk (Json data) st"] e
    by (simp add: ws_onmessage_non_error [OF ne])
qed

lemma ws_onmessage_extends:
  "\<exists>added. messages (ws_onmessage now playOk p st) = messages st @ added"
  by (cases p) (simp_all add: ws_onmessage_def JSON_parse_def play_inbound_audio_def Let_def)

lemma handleSendMessage_extends:
  "\<exists>added. messages (handleSendMessage now body st) = messages st @ added"
  by (simp add: handleSendMessage_def Let_def split: option.splits sum.splits)

lemma stopRecording_messages: "messages (stopRecording st) = messages st"
  by (simp add: stopRecording_def)

lemma onSilence_messages: "messages (onSilence st) = messages st"
  by (simp add: onSilence_def stopRecording_messages)

lemma chat_audioprocess_messages: "messages (chat_audioprocess i now array st) = messages st"
  by (simp add: chat_audioprocess_def audioprocess_def onSilence_messages)

lemma connect_cleanup_messages: "messages (connect_cleanup st) = messages st"
  by (simp add: connect_cleanup_def Let_def split: option.splits)

lemma step_extends: "\<exists>added. messages (step a st) = messages st @ added"
proof (cases a)
  case (Inbound now playOk p)
  then show ?thesis using ws_onmessage_extends by simp
next
  case (Send now body)
  then show ?thesis using handleSendMessage_extends by simp
next
  case (WsMessage now data)
  then show ?thesis by (simp add: handleWsMessage_def Let_def)
qed (simp_all add: connect_effect_def connect_cleanup_messages channel_open_def ws_onopen_def
       startRecording_def stopRecording_messages chat_audioprocess_messages
       split: mic_outcome.splits)

lemma run_extends: "\<exists>added. messages (run acts st) = messages st @ added"
proof (induction acts arbitrary: st)
  case Nil
  show ?case by simp
next
  case (Cons a acts)
  obtain x where x: "messages (step a st) = messages st @ x"
    using step_extends by blast
  obtain y where y: "messages (run acts (step a st)) = messages (step a st) @ y"
    using Cons.IH by blast
  from x y show ?case by simp
qed

text \<open>
  Claim C5. Inbound events \<open>e1..eN\<close> that are not error events (each parses to a value
  whose \<open>type\<close> can be read and is not \<open>"error"\<close>), delivered in order, add to the log
  one message for each event, in the same order, after the entries the log already had.
  The message of an event carries the event's fields one for one: its type (\<open>bot\<close> when
  the event has none), content, original and translated text, the four language fields,
  the time stamp (the time of arrival when the event has none), the audio, and in its
  analysis the symptoms (none when the event has none), the overall confidence, the
  urgency, the emergency flag and the recommendations. And whatever effects and handlers
  of the component run, the log they leave is the log they found with entries added at its
  end: nothing is removed or reordered.
\<close>

theorem inbound_events_appended_in_order:
  "((\<forall>e \<in> set evs. non_error (snd (snd e))) \<longrightarrow>
      messages (deliver (map (\<lambda>(now, playOk, data). (now, playOk, Json data)) evs) st)
        = messages st @
          map (\<lambda>(now, playOk, data).
                 JObj [(''type'', if truthy (js_get data ''type'') then js_get data ''type''
                                  else JStr (lit ''bot'')),
                       (''content'', js_get data ''content''),
                       (''originalContent'', js_get data ''original_message''),
                       (''translatedContent'', js_get data ''translated_message''),
                       (''language'',
                          JObj [(''source'', js_get_opt (js_get data ''language'') ''source''),
                                (''target'', js_get_opt (js_get data ''language'') ''target''),
                                (''detected'', js_get_opt (js_get data ''language'') ''detected''),
                                (''confidence'', js_get_opt (js_get data ''language'') ''confidence'')]),
                       (''timestamp'', JDate (if truthy (js_get data ''timestamp'')
                                              then js_get data ''timestamp''
                                              else JNum (of_int now))),
                       (''audio'', js_get data ''audio''),
                       (''analysis'',
                          JObj [(''symptoms'', if truthy (js_get data ''symptoms'')
                                               then js_get data ''symptoms'' else JArr []),
                                (''confidence'',
                                   js_get_opt (js_get data ''confidence_scores'') ''overall''),
                                (''urgency'', js_get data ''urgency''),
                                (''requiresEmergency'', js_get data ''requires_emergency''),
                                (''recommendations'', js_get data ''recommendations'')])])
              evs)
   \<and> (\<exists>added. messages (run acts st) = messages st @ added)"
  (is "(?A \<longrightarrow> ?L = messages st @ map ?f evs) \<and> ?B")
proof -
  have f: "?f = (\<lambda>(now, playOk, data). inbound_message now data)"
    by (simp add: fun_eq_iff inbound_message_def js_or_def)
  show ?thesis
    unfolding f using deliver_non_error [of evs st] run_extends [of acts st] by blast
qed

theorem inbound_events_appended_in_order_witness:
  "non_error (JObj [(''type'', JStr (lit ''bot'')), (''content'', JStr (lit ''Rest'')),
                    (''original_message'', JStr (lit ''Aaraam'')),
                    (''language'', JObj [(''source'', JStr (lit ''hi'')),
                                         (''target'', JStr (lit ''en'')),
                                         (''detected'', JBool True),
                                         (''confidence'', JNum (9/10))]),
                    (''timestamp'', JNum 990),
                    (''symptoms'', JArr [JObj [(''name'', JStr (lit ''headache''))]]),
                    (''confidence_scores'', JObj [(''overall'', JNum (4/5))]),
                    (''urgency'', JStr (lit ''low'')),
                    (''requires_emergency'', JBool False),
                    (''recommendations'', JArr [JStr (lit ''rest'')])])
   \<and> non_error (JObj [(''content'', JStr (lit ''B'')), (''audio'', JStr (lit ''QkJC''))])
   \<and> messages (deliver
        [(1000, True,
          Json (JObj [(''type'', JStr (lit ''bot'')), (''content'', JStr (lit ''Rest'')),
                      (''original_message'', JStr (lit ''Aaraam'')),
                      (''language'', JObj [(''source'', JStr (lit ''hi'')),
                                           (''target'', JStr (lit ''en'')),
                                           (''detected'', JBool True),
                                           (''confidence'', JNum (9/10))]),
                      (''timestamp'', JNum 990),
                      (''symptoms'', JArr [JObj [(''name'', JStr (lit ''headache''))]]),
                      (''confidence_scores'', JObj [(''overall'', JNum (4/5))]),
                      (''urgency'', JStr (lit ''low'')),
                      (''requires_emergency'', JBool False),
                      (''recommendations'', JArr [JStr (lit ''rest'')])])),
         (2000, False, Json (JObj [(''content'', JStr (lit ''B'')),
                                   (''audio'', JStr (lit ''QkJC''))]))]
        (fresh_session 0))
      = [initial_message 0,
         JObj [(''type'', JStr (lit ''bot'')),
               (''content'', JStr (lit ''Rest'')),
               (''originalContent'', JStr (lit ''Aaraam'')),
               (''translatedContent'', JUndefined),
               (''language'', JObj [(''source'', JStr (lit ''hi'')),
                                    (''target'', JStr (lit ''en'')),
                                    (''detected'', JBool True),
                                    (''confidence'', JNum (9/10))]),
               (''timestamp'', JDate (JNum 990)),
               (''audio'', JUndefined),
               (''analysis'', JObj [(''symptoms'', JArr [JObj [(''name'', JStr (lit ''headache''))]]),
                                    (''confidence'', JNum (4/5)),
                                    (''urgency'', JStr (lit ''low'')),
                                    (''requiresEmergency'', JBool False),
                                    (''recommendations'', JArr [JStr (lit ''rest'')])])],
         JObj [(''type'', JStr (lit ''bot'')),
               (''content'', JStr (lit ''B'')),
               (''originalContent'', JUndefined),
               (''translatedContent'', JUndefined),
               (''language'', JObj [(''source'', JUndefined),
                                    (''target'', JUndefined),
                                    (''detected'', JUndefined),
                                    (''confidence'', JUndefined)]),
               (''timestamp'', JDate (JNum 2000)),
               (''audio'', JStr (lit ''QkJC'')),
               (''analysis'', JObj [(''symptoms'', JArr []),
                                    (''confidence'', JUndefined),
                                    (''urgency'', JUndefined),
                                    (''requiresEmergency'', JUndefined),
                                    (''recommendations'', JUndefined)])]]"
proof -
  have h1: "non_error (JObj [(''type'', JStr (lit ''bot'')), (''content'', JStr (lit ''Rest'')),
                    (''original_message'', JStr (lit ''Aaraam'')),
                    (''language'', JObj [(''source'', JStr (lit ''hi'')),
                                         (''target'', JStr (lit ''en'')),
                                         (''detected'', JBool True),
                                         (''confidence'', JNum (9/10))]),
                    (''timestamp'', JNum 990),
                    (''symptoms'', JArr [JObj [(''name'', JStr (lit ''headache''))]]),
                    (''confidence_scores'', JObj [(''overall'', JNum (4/5))]),
                    (''urgency'', JStr (lit ''low'')),
                    (''requires_emergency'', JBool False),
                    (''recommendations'', JArr [JStr (lit ''rest'')])])"
    by (simp add: non_error_def)
  have h2: "non_error (JObj [(''content'', JStr (lit ''B'')), (''audio'', JStr (lit ''QkJC''))])"
    by (simp add: non_error_def)
  show ?thesis
    using h1 h2 inbound_events_appended_in_order
      [of "[(1000, True,
             JObj [(''type'', JStr (lit ''bot'')), (''content'', JStr (lit ''Rest'')),
                   (''original_message'', JStr (lit ''Aaraam'')),
                   (''language'', JObj [(''source'', JStr (lit ''hi'')),
                                        (''target'', JStr (lit ''en'')),
                                        (''detected'', JBool True),
                                        (''confidence'', JNum (9/10))]),
                   (''timestamp'', JNum 990),
                   (''symptoms'', JArr [JObj [(''name'', JStr (lit ''headache''))]]),
                   (''confidence_scores'', JObj [(''overall'', JNum (4/5))]),
                   (''urgency'', JStr (lit ''low'')),
                   (''requires_emergency'', JBool False),
                   (''recommendations'', JArr [JStr (lit ''rest'')])]),
            (2000, False, JObj [(''content'', JStr (lit ''B'')), (''audio'', JStr (lit ''QkJC''))])]"
          "fresh_session 0" "[]"]
    by (simp add: fresh_session_messages js_get_opt_def)
qed




text \<open>
  Claim C8. An inbound event whose type is \<open>"error"\<close> only sets the channel error to
  the event's content: the log and the socket (its ready state included) are as before.
  An inbound frame that does not parse only sets the channel error to a fixed text: the
  log and the socket are as before.
\<close>

theorem error_and_malformed_events_leave_log:
  "(js_get data ''type'' = JStr (lit ''error'') \<longrightarrow>
      ws_onmessage now playOk (Json data) st = st\<lparr> wsError := js_get data ''content'' \<rparr>
      \<and> messages (ws_onmessage now playOk (Json data) st) = messages st
      \<and> wsInstance (ws_onmessage now playOk (Json data) st) = wsInstance st)
   \<and> ws_onmessage now playOk Malformed st = st\<lparr> wsError := JStr (lit ''Error processing message'') \<rparr>
   \<and> messages (ws_onmessage now playOk Malformed st) = messages st
   \<and> wsInstance (ws_onmessage now playOk Malformed st) = wsInstance st"
proof -
  have "js_get data ''type'' = JStr (lit ''error'') \<Longrightarrow> \<not> nullish data"
    using js_get_nullish [of data "''type''"] by auto
  then show ?thesis
    by (auto simp: ws_onmessage_def JSON_parse_def)
qed

theorem error_and_malformed_events_leave_log_witness:
  "js_get (JObj [(''type'', JStr (lit ''error'')), (''content'', JStr (lit ''boom''))]) ''type'' = JStr (lit ''error'')
   \<and> ws_onmessage 1000 True (Json (JObj [(''type'', JStr (lit ''error'')), (''content'', JStr (lit ''boom''))]))
        (fresh_session 0)
      = (fresh_session 0)\<lparr> wsError := JStr (lit ''boom'') \<rparr>
   \<and> messages (ws_onmessage 1000 True
        (Json (JObj [(''type'', JStr (lit ''error'')), (''content'', JStr (lit ''boom''))])) (fresh_session 0))
      = [initial_message 0]
   \<and> wsInstance (ws_onmessage 1000 True
        (Json (JObj [(''type'', JStr (lit ''error'')), (''content'', JStr (lit ''boom''))])) (fresh_session 0))
      = Some \<lparr> readyState = OPEN, sent = [] \<rparr>"
proof -
  have h: "js_get (JObj [(''type'', JStr (lit ''error'')), (''content'', JStr (lit ''boom''))]) ''type''
             = JStr (lit ''error'')"
    by simp
  show ?thesis
    using h error_and_malformed_events_leave_log
      [of "JObj [(''type'', JStr (lit ''error'')), (''content'', JStr (lit ''boom''))]" 1000 True
          "fresh_session 0"]
    by (simp add: fresh_session_messages fresh_session_socket)
qed

section \<open>Properties of playback\<close>




section \<open>Properties of recording\<close>

lemma stopRecording_detectors: "detectors (stopRecording st) = detectors st"
  by (simp add: stopRecording_def)

lemma auto_stop_releases:
  "snd (audioprocess (\<lambda>calls. calls @ [now]) now array (d, calls)) \<noteq> calls \<Longrightarrow>
   released (fst (audioprocess (\<lambda>calls. calls @ [now]) now array (d, calls)))"
  by (auto simp: audioprocess_def released_def split: if_splits)

text \<open>
  Claim C4. Every way a recording ends is to release the audio graph of its silence
  detector, a manual stop doing so at once. The silence path does (\<open>auto_stop_releases\<close>);
  \<open>stopRecording\<close> stops the recorder only and leaves the detectors as they are
  (\<open>stopRecording_detectors\<close>). A recording started at 0 and stopped by hand after a
  sample with sound at 1000 still has its source and processor connected and its context
  open, and its listener still runs on the sample at 6000.
\<close>

theorem manual_stop_keeps_audio_graph:
  "run [StartRecording Granted 0 0, AudioProcess 0 1000 [0, 17, 3, 0], StopRecording,
        AudioProcess 0 6000 [0, 9, 0, 0]] (fresh_session 0)
   = (fresh_session 0)
       \<lparr> mediaRecorderRef := Some Rec_inactive,
         detectors := [\<lparr> startTime = 0, minRecordingDuration = 2000, silenceDelay = 3000,
                         minDecibels = -45, lastSound = 0, microphoneConnected = True,
                         analyserConnected = True, scriptProcessorConnected = True,
                         audioContextClosed = False \<rparr>] \<rparr>"
  by (simp add: fresh_session_def channel_open_def connect_effect_def initial_chat_def
      ws_onopen_def startRecording_def stopRecording_def chat_audioprocess_def audioprocess_def
      detectSilence_def average_def arraySum_def onSilence_def)

section \<open>Properties of the preferences\<close>

lemma handleSettingChange_voice_roundtrip:
  "page_load (snd (handleSettingChange ''voice''
      (JObj [(''enabled'', JBool True), (''gender'', JStr (lit ''male'')), (''speed'', JNum (3/2))])
      (JObj [(''showSettings'', JBool True), (''interfaceLanguage'', JStr (lit ''hi'')),
             (''preferredLanguage'', JStr (lit ''ta'')), (''autoDetectLanguage'', JBool False),
             (''voice'', JObj [(''enabled'', JBool True), (''gender'', JStr (lit ''male'')),
                               (''speed'', JNum 1)])],
       Map.empty))) page_default_settings
   = JObj [(''showSettings'', JBool False), (''interfaceLanguage'', JStr (lit ''hi'')),
           (''preferredLanguage'', JStr (lit ''ta'')), (''autoDetectLanguage'', JBool False),
           (''voice'', JObj [(''enabled'', JBool True), (''gender'', JStr (lit ''male'')),
                             (''speed'', JNum (3/2))])]"
  by (simp add: page_load_def handleSettingChange_def spread_set_def stringify_object_def
      merge_saved_def page_default_settings_def default_voice_def prefs_key_def
      js_or_def js_coalesce_def Let_def)

text \<open>
  Claim C7. Every writer of the preference blob is to persist the merged preferences so
  that a load in a fresh session returns the changed field and the other fields as set.
  The writer of the consultation page does so in the example of the claim, a change of
  the voice speed to 1.5 (\<open>handleSettingChange_voice_roundtrip\<close>).
  \<open>handleLanguageChange\<close> of the chat component stores the settings under the names of
  the settings state, which the loaders do not read: with interface and preferred
  language \<open>hi\<close> and auto-detect off, changing the preferred language to \<open>ta\<close> and
  loading in a fresh session gives preferred language \<open>en\<close>, interface language \<open>en\<close>
  and auto-detect on; only the voice settings come back.
\<close>

theorem handleLanguageChange_not_loaded_back:
  "chat_load (snd (handleLanguageChange (JStr (lit ''ta''))
      (JObj [(''interfaceLanguage'', JStr (lit ''hi'')), (''preferredLanguage'', JStr (lit ''hi'')),
             (''autoDetectLanguage'', JBool False),
             (''voice'', JObj [(''enabled'', JBool True), (''gender'', JStr (lit ''male'')),
                               (''speed'', JNum (3/2))])],
       Map.empty))) default_settings
   = JObj [(''interfaceLanguage'', JStr (lit ''en'')), (''preferredLanguage'', JStr (lit ''en'')),
           (''autoDetectLanguage'', JBool True),
           (''voice'', JObj [(''enabled'', JBool True), (''gender'', JStr (lit ''male'')),
                             (''speed'', JNum (3/2))])]"
  by (simp add: chat_load_def handleLanguageChange_def spread_set_def stringify_settings_def
      stringify_object_def merge_saved_def default_settings_def default_voice_def prefs_key_def
      js_or_def js_coalesce_def Let_def)

section \<open>Properties of the channel set-up\<close>

lemma service_onopen_sends_init:
  "service_onopen (JObj ps) None (ws_opened new_WebSocket)
     = Inr \<lparr> readyState = OPEN, sent = [init_event (JObj ps)] \<rparr>"
  by (simp add: service_onopen_def default_options_def ws_send_def ws_opened_def
      new_WebSocket_def)

text \<open>
  Claim C9. Every successful connect is to send one init event before any message
  event. The socket of \<open>WebSocketService.connect\<close> does (\<open>service_onopen_sends_init\<close>).
  The chat component opens its own socket, whose \<open>onopen\<close> handler sends nothing: after
  connect and open no frame has been sent, and the first frame on the connection is the
  message event of the first message the user sends.
\<close>

theorem chat_connection_sends_no_init:
  "map_option sent (wsInstance (run [Connect, Opened] (initial_chat 0))) = Some []
   \<and> map_option sent
        (wsInstance (run [Connect, Opened, Send 1000 (lit ''I have a headache'')] (initial_chat 0)))
      = Some [JObj [(''type'', JStr (lit ''message'')),
                    (''content'', JStr (lit ''I have a headache'')),
                    (''language'', JObj [(''source'', JStr (lit ''en'')), (''autoDetect'', JBool True)]),
                    (''preferences'', JObj [(''voice'', default_voice),
                                            (''showOriginalText'', JBool False)])]]"
  by (simp add: channel_open_def connect_effect_def initial_chat_def ws_onopen_def
      handleSendMessage_def ws_send_def ws_opened_def new_WebSocket_def trim_def is_space_def
      outbound_message_def)




end
